theory Spec2Isabelle
  imports Complex_Main
begin

section \<open>The store: tables of src/sales.py as lists of rows\<close>

text \<open>
  The tables of \<^verbatim>\<open>init_database\<close> that \<^verbatim>\<open>add_to_cart\<close>, \<^verbatim>\<open>get_cart_items\<close>,
  \<^verbatim>\<open>remove_from_cart\<close> and \<^verbatim>\<open>create_order\<close> read or write. A table is the list of its
  rows in rowid order; a row is a record of the columns these operations touch
  (Product.description, Product.category_id and the city, state, country and zip_code
  of Shipment are neither read nor written by them and are left out).
  Integer columns hold Python ints (\<open>int\<close>; the 64-bit range of an SQLite INTEGER is
  not part of the model); DECIMAL(10,2) amounts are exact numbers (\<open>real\<close>), so binary
  rounding of the amounts is not part of the model; DATETIME values are opaque instants.
  Columns are never NULL: every INSERT of the source binds a value to each column
  modelled here. No foreign key is enforced (the source never turns
  \<^verbatim>\<open>PRAGMA foreign_keys\<close> on), so a row may refer to an id that no table holds.
\<close>

type_synonym datetime = nat

record product_row =
  p_product_id :: int
  p_name :: string
  p_price :: real
  p_stock :: int

record cart_row =
  c_cart_id :: int
  c_customer_id :: int
  c_product_id :: int
  c_quantity :: int
  c_added_date :: datetime

record payment_row =
  pay_payment_id :: int
  pay_customer_id :: int
  pay_payment_method :: string
  pay_amount :: real
  pay_payment_date :: datetime

record shipment_row =
  s_shipment_id :: int
  s_shipment_date :: datetime
  s_address :: string
  s_tracking_number :: string

record order_row =
  o_order_id :: int
  o_customer_id :: int
  o_order_date :: datetime
  o_total_amount :: real
  o_payment_id :: int
  o_shipment_id :: int
  o_status :: string

record order_item_row =
  oi_order_item_id :: int
  oi_order_id :: int
  oi_product_id :: int
  oi_quantity :: int
  oi_unit_price :: real

record db =
  Product :: "product_row list"
  Cart :: "cart_row list"
  Payment :: "payment_row list"
  Shipment :: "shipment_row list"
  Order :: "order_row list"
  Order_Item :: "order_item_row list"

text \<open>
  An INTEGER PRIMARY KEY column is the rowid. An INSERT that gives no value for it
  takes one more than the largest rowid in use, or 1 in an empty table; that value is
  what \<^verbatim>\<open>cursor.lastrowid\<close> reads afterwards.
\<close>

definition next_rowid :: "int list \<Rightarrow> int" where
  "next_rowid ids = (case ids of [] \<Rightarrow> 1 | x # xs \<Rightarrow> fold max xs x + 1)"

section \<open>The connection: committed store, open transaction, failures\<close>

text \<open>
  \<^verbatim>\<open>self.conn\<close> is one sqlite3 connection. \<open>working\<close> is the store as the connection
  sees it (with the writes of its open transaction), \<open>committed\<close> the store as of the
  last commit. Any database call may raise (\<^verbatim>\<open>sqlite3.Error\<close>: the storage layer
  failing); \<open>faults\<close> is the schedule of that: the next call raises iff the head of
  the list is \<open>True\<close>, and a call that raises leaves the store as it was.
\<close>

datatype error = DatabaseError

record connection =
  committed :: db
  working :: db
  faults :: "bool list"

type_synonym 'a action = "connection \<Rightarrow> (error + 'a) \<times> connection"

definition return_value :: "'a \<Rightarrow> 'a action" where
  "return_value x c = (Inr x, c)"

definition and_then :: "'a action \<Rightarrow> ('a \<Rightarrow> 'b action) \<Rightarrow> 'b action" where
  "and_then m f c = (case m c of (Inl e, c') \<Rightarrow> (Inl e, c') | (Inr x, c') \<Rightarrow> f x c')"

definition next_fault :: "connection \<Rightarrow> bool \<times> connection" where
  "next_fault c = (case faults c of [] \<Rightarrow> (False, c) | f # fs \<Rightarrow> (f, c\<lparr>faults := fs\<rparr>))"

text \<open>\<^verbatim>\<open>cursor.execute\<close> of a SELECT: reads the connection's view of the store.\<close>

definition execute_select :: "(db \<Rightarrow> 'a) \<Rightarrow> 'a action" where
  "execute_select q c =
     (case next_fault c of
        (True, c') \<Rightarrow> (Inl DatabaseError, c')
      | (False, c') \<Rightarrow> (Inr (q (working c')), c'))"

text \<open>
  \<^verbatim>\<open>cursor.execute\<close> of an INSERT, UPDATE or DELETE: changes the connection's view only
  (sqlite3 opens a transaction before the statement); the value is what the cursor
  reports afterwards (\<^verbatim>\<open>lastrowid\<close> or \<^verbatim>\<open>rowcount\<close>).
\<close>

definition cursor_execute :: "(db \<Rightarrow> 'a \<times> db) \<Rightarrow> 'a action" where
  "cursor_execute stmt c =
     (case next_fault c of
        (True, c') \<Rightarrow> (Inl DatabaseError, c')
      | (False, c') \<Rightarrow> (case stmt (working c') of (r, d) \<Rightarrow> (Inr r, c'\<lparr>working := d\<rparr>)))"

definition commit :: "unit action" where
  "commit c =
     (case next_fault c of
        (True, c') \<Rightarrow> (Inl DatabaseError, c')
      | (False, c') \<Rightarrow> (Inr (), c'\<lparr>committed := working c'\<rparr>))"

definition rollback :: "connection \<Rightarrow> connection" where
  "rollback c = c\<lparr>working := committed c\<rparr>"

text \<open>\<^verbatim>\<open>DatabaseManager.execute_query\<close>: execute and fetch all rows.\<close>

definition execute_query :: "(db \<Rightarrow> 'a) \<Rightarrow> 'a action" where
  "execute_query q = execute_select q"

text \<open>\<^verbatim>\<open>DatabaseManager.execute_update\<close>: execute, commit, return the cursor's count.\<close>

definition execute_update :: "(db \<Rightarrow> 'a \<times> db) \<Rightarrow> 'a action" where
  "execute_update stmt =
     and_then (cursor_execute stmt) (\<lambda>r. and_then commit (\<lambda>_. return_value r))"

section \<open>The SQL statements of the cart and the order placement\<close>

text \<open>SELECT cart_id, quantity FROM Cart WHERE customer_id = ? AND product_id = ?\<close>

definition select_cart_line :: "int \<Rightarrow> int \<Rightarrow> db \<Rightarrow> (int \<times> int) list" where
  "select_cart_line customer_id product_id d =
     map (\<lambda>l. (c_cart_id l, c_quantity l))
       (filter (\<lambda>l. c_customer_id l = customer_id \<and> c_product_id l = product_id) (Cart d))"

text \<open>UPDATE Cart SET quantity = ? WHERE cart_id = ?\<close>

definition update_cart_quantity :: "int \<Rightarrow> int \<Rightarrow> db \<Rightarrow> nat \<times> db" where
  "update_cart_quantity new_quantity cart_id d =
     (length (filter (\<lambda>l. c_cart_id l = cart_id) (Cart d)),
      d\<lparr>Cart := map (\<lambda>l. if c_cart_id l = cart_id then l\<lparr>c_quantity := new_quantity\<rparr> else l)
                    (Cart d)\<rparr>)"

text \<open>INSERT INTO Cart (customer_id, product_id, quantity, added_date) VALUES (?, ?, ?, ?)\<close>

definition insert_cart :: "int \<Rightarrow> int \<Rightarrow> int \<Rightarrow> datetime \<Rightarrow> db \<Rightarrow> nat \<times> db" where
  "insert_cart customer_id product_id quantity added_date d =
     (1, d\<lparr>Cart := Cart d @
              [\<lparr>c_cart_id = next_rowid (map c_cart_id (Cart d)), c_customer_id = customer_id,
                c_product_id = product_id, c_quantity = quantity, c_added_date = added_date\<rparr>]\<rparr>)"

text \<open>DELETE FROM Cart WHERE cart_id = ?\<close>

definition delete_cart_line :: "int \<Rightarrow> db \<Rightarrow> nat \<times> db" where
  "delete_cart_line cart_id d =
     (length (filter (\<lambda>l. c_cart_id l = cart_id) (Cart d)),
      d\<lparr>Cart := filter (\<lambda>l. c_cart_id l \<noteq> cart_id) (Cart d)\<rparr>)"

text \<open>
  The rows of \<^verbatim>\<open>get_cart_items\<close>, as the dictionaries it builds:
  SELECT c.cart_id, c.product_id, p.name, p.price, c.quantity, (p.price * c.quantity)
  FROM Cart c JOIN Product p ON c.product_id = p.product_id WHERE c.customer_id = ?
\<close>

record cart_item =
  item_cart_id :: int
  item_product_id :: int
  item_name :: string
  item_price :: real
  item_quantity :: int
  item_total_price :: real

definition join_product :: "db \<Rightarrow> cart_row \<Rightarrow> cart_item list" where
  "join_product d l =
     map (\<lambda>p. \<lparr>item_cart_id = c_cart_id l, item_product_id = c_product_id l,
               item_name = p_name p, item_price = p_price p, item_quantity = c_quantity l,
               item_total_price = p_price p * of_int (c_quantity l)\<rparr>)
       (filter (\<lambda>p. c_product_id l = p_product_id p) (Product d))"

definition select_cart_items :: "int \<Rightarrow> db \<Rightarrow> cart_item list" where
  "select_cart_items customer_id d =
     concat (map (join_product d) (filter (\<lambda>l. c_customer_id l = customer_id) (Cart d)))"

text \<open>INSERT INTO Payment (customer_id, payment_method, amount, payment_date) VALUES (?, ?, ?, ?)\<close>

definition insert_payment :: "int \<Rightarrow> string \<Rightarrow> real \<Rightarrow> datetime \<Rightarrow> db \<Rightarrow> int \<times> db" where
  "insert_payment customer_id payment_method amount payment_date d =
     (let payment_id = next_rowid (map pay_payment_id (Payment d))
      in (payment_id,
          d\<lparr>Payment := Payment d @
               [\<lparr>pay_payment_id = payment_id, pay_customer_id = customer_id,
                 pay_payment_method = payment_method, pay_amount = amount,
                 pay_payment_date = payment_date\<rparr>]\<rparr>))"

text \<open>INSERT INTO Shipment (shipment_date, address, tracking_number) VALUES (?, ?, ?)\<close>

definition insert_shipment :: "datetime \<Rightarrow> string \<Rightarrow> string \<Rightarrow> db \<Rightarrow> int \<times> db" where
  "insert_shipment shipment_date address tracking_number d =
     (let shipment_id = next_rowid (map s_shipment_id (Shipment d))
      in (shipment_id,
          d\<lparr>Shipment := Shipment d @
               [\<lparr>s_shipment_id = shipment_id, s_shipment_date = shipment_date,
                 s_address = address, s_tracking_number = tracking_number\<rparr>]\<rparr>))"

text \<open>
  INSERT INTO "Order" (customer_id, order_date, total_amount, payment_id, shipment_id, status)
  VALUES (?, ?, ?, ?, ?, ?)
\<close>

definition insert_order ::
  "int \<Rightarrow> datetime \<Rightarrow> real \<Rightarrow> int \<Rightarrow> int \<Rightarrow> string \<Rightarrow> db \<Rightarrow> int \<times> db" where
  "insert_order customer_id order_date total_amount payment_id shipment_id status d =
     (let order_id = next_rowid (map o_order_id (Order d))
      in (order_id,
          d\<lparr>Order := Order d @
               [\<lparr>o_order_id = order_id, o_customer_id = customer_id, o_order_date = order_date,
                 o_total_amount = total_amount, o_payment_id = payment_id,
                 o_shipment_id = shipment_id, o_status = status\<rparr>]\<rparr>))"

text \<open>INSERT INTO Order_Item (order_id, product_id, quantity, unit_price) VALUES (?, ?, ?, ?)\<close>

definition insert_order_item :: "int \<Rightarrow> int \<Rightarrow> int \<Rightarrow> real \<Rightarrow> db \<Rightarrow> int \<times> db" where
  "insert_order_item order_id product_id quantity unit_price d =
     (let order_item_id = next_rowid (map oi_order_item_id (Order_Item d))
      in (order_item_id,
          d\<lparr>Order_Item := Order_Item d @
               [\<lparr>oi_order_item_id = order_item_id, oi_order_id = order_id,
                 oi_product_id = product_id, oi_quantity = quantity,
                 oi_unit_price = unit_price\<rparr>]\<rparr>))"

text \<open>UPDATE Product SET stock = stock - ? WHERE product_id = ?\<close>

definition update_stock :: "int \<Rightarrow> int \<Rightarrow> db \<Rightarrow> nat \<times> db" where
  "update_stock quantity product_id d =
     (length (filter (\<lambda>p. p_product_id p = product_id) (Product d)),
      d\<lparr>Product := map (\<lambda>p. if p_product_id p = product_id
                             then p\<lparr>p_stock := p_stock p - quantity\<rparr> else p)
                       (Product d)\<rparr>)"

text \<open>DELETE FROM Cart WHERE customer_id = ?\<close>

definition clear_cart :: "int \<Rightarrow> db \<Rightarrow> nat \<times> db" where
  "clear_cart customer_id d =
     (length (filter (\<lambda>l. c_customer_id l = customer_id) (Cart d)),
      d\<lparr>Cart := filter (\<lambda>l. c_customer_id l \<noteq> customer_id) (Cart d)\<rparr>)"

section \<open>DatabaseManager: the cart\<close>

text \<open>
  \<^verbatim>\<open>add_to_cart\<close>. The instant \<^verbatim>\<open>datetime.now()\<close> is the argument \<open>now\<close>. The source has
  no handler here: a database call that raises ends the call with that exception
  (\<open>Inl\<close>), otherwise the value is \<^verbatim>\<open>True\<close>.
\<close>

definition add_to_cart :: "datetime \<Rightarrow> int \<Rightarrow> int \<Rightarrow> int \<Rightarrow> bool action" where
  "add_to_cart now customer_id product_id quantity =
     and_then (execute_query (select_cart_line customer_id product_id)) (\<lambda>existing.
       and_then
         (case existing of
            (cart_id, old_quantity) # _ \<Rightarrow>
              execute_update (update_cart_quantity (old_quantity + quantity) cart_id)
          | [] \<Rightarrow> execute_update (insert_cart customer_id product_id quantity now))
         (\<lambda>_. return_value True))"

text \<open>\<^verbatim>\<open>get_cart_items\<close> and \<^verbatim>\<open>remove_from_cart\<close>.\<close>

definition get_cart_items :: "int \<Rightarrow> cart_item list action" where
  "get_cart_items customer_id = execute_query (select_cart_items customer_id)"

definition remove_from_cart :: "int \<Rightarrow> bool action" where
  "remove_from_cart cart_id =
     and_then (execute_update (delete_cart_line cart_id)) (\<lambda>n. return_value (n > 0))"

section \<open>DatabaseManager: placing an order\<close>

text \<open>
  What \<^verbatim>\<open>create_order\<close> takes from outside the store: the three readings of
  \<^verbatim>\<open>datetime.now()\<close> and the 32 hexadecimal digits of \<^verbatim>\<open>uuid.uuid4().hex\<close>.
\<close>

record order_env =
  payment_now :: datetime
  shipment_now :: datetime
  order_now :: datetime
  uuid4_hex :: string

definition upper_char :: "char \<Rightarrow> char" where
  "upper_char ch =
     (let n = (of_char ch :: nat) in if 97 \<le> n \<and> n \<le> 122 then char_of (n - 32) else ch)"

definition tracking_number_of :: "string \<Rightarrow> string" where
  "tracking_number_of hex = ''UNIQLO'' @ map upper_char (take 8 hex)"

text \<open>The loop over the cart items: an Order_Item row, then the stock update, per item.\<close>

fun create_order_items :: "int \<Rightarrow> cart_item list \<Rightarrow> unit action" where
  "create_order_items order_id [] = return_value ()"
| "create_order_items order_id (item # items) =
     and_then (cursor_execute (insert_order_item order_id (item_product_id item)
                                 (item_quantity item) (item_price item))) (\<lambda>_.
     and_then (cursor_execute (update_stock (item_quantity item) (item_product_id item))) (\<lambda>_.
     create_order_items order_id items))"

text \<open>The body of the \<^verbatim>\<open>try\<close> block.\<close>

definition create_order_try :: "order_env \<Rightarrow> int \<Rightarrow> string \<Rightarrow> string \<Rightarrow> int option action" where
  "create_order_try env customer_id payment_method shipping_address =
     and_then (get_cart_items customer_id) (\<lambda>cart_items.
       if cart_items = [] then return_value None
       else
         let total_amount = sum_list (map item_total_price cart_items) in
         and_then (cursor_execute (insert_payment customer_id payment_method total_amount
                                     (payment_now env))) (\<lambda>payment_id.
         and_then (cursor_execute (insert_shipment (shipment_now env) shipping_address
                                     (tracking_number_of (uuid4_hex env)))) (\<lambda>shipment_id.
         and_then (cursor_execute (insert_order customer_id (order_now env) total_amount
                                     payment_id shipment_id ''Processing'')) (\<lambda>order_id.
         and_then (create_order_items order_id cart_items) (\<lambda>_.
         and_then (cursor_execute (clear_cart customer_id)) (\<lambda>_.
         and_then commit (\<lambda>_.
         return_value (Some order_id))))))))"

text \<open>
  \<^verbatim>\<open>create_order\<close>: the \<^verbatim>\<open>try\<close> block, and the handler that rolls back and returns
  \<^verbatim>\<open>None\<close> on any exception. The value is the \<^verbatim>\<open>Optional[int]\<close> of the source.
\<close>

definition create_order ::
  "order_env \<Rightarrow> int \<Rightarrow> string \<Rightarrow> string \<Rightarrow> connection \<Rightarrow> int option \<times> connection" where
  "create_order env customer_id payment_method shipping_address c =
     (case create_order_try env customer_id payment_method shipping_address c of
        (Inr r, c') \<Rightarrow> (r, c')
      | (Inl e, c') \<Rightarrow> (None, rollback c'))"

section \<open>The unit of work without failures, and views of the store\<close>

text \<open>Whether the next database call raises.\<close>

definition raises :: "connection \<Rightarrow> bool" where
  "raises c = (case faults c of [] \<Rightarrow> False | f # _ \<Rightarrow> f)"

text \<open>
  The writes of \<^const>\<open>create_order_items\<close> and of the whole \<^verbatim>\<open>try\<close> block on the store
  when no call raises: the same statements, composed. \<open>placed\<close> gives the new order's
  id and the store after the last statement.
\<close>

fun apply_order_items :: "int \<Rightarrow> cart_item list \<Rightarrow> db \<Rightarrow> db" where
  "apply_order_items order_id [] d = d"
| "apply_order_items order_id (item # items) d =
     apply_order_items order_id items
       (snd (update_stock (item_quantity item) (item_product_id item)
          (snd (insert_order_item order_id (item_product_id item) (item_quantity item)
                  (item_price item) d))))"

definition cart_total :: "int \<Rightarrow> db \<Rightarrow> real" where
  "cart_total customer_id d = sum_list (map item_total_price (select_cart_items customer_id d))"

definition placed :: "order_env \<Rightarrow> int \<Rightarrow> string \<Rightarrow> string \<Rightarrow> db \<Rightarrow> int \<times> db" where
  "placed env customer_id payment_method shipping_address d =
     (case insert_payment customer_id payment_method (cart_total customer_id d)
             (payment_now env) d of
        (payment_id, d1) \<Rightarrow>
     (case insert_shipment (shipment_now env) shipping_address
             (tracking_number_of (uuid4_hex env)) d1 of
        (shipment_id, d2) \<Rightarrow>
     (case insert_order customer_id (order_now env) (cart_total customer_id d) payment_id
             shipment_id ''Processing'' d2 of
        (order_id, d3) \<Rightarrow>
          (order_id,
           snd (clear_cart customer_id
                  (apply_order_items order_id (select_cart_items customer_id d) d3))))))"

text \<open>The cart lines of a customer, and the quantity of a product over them.\<close>

definition cart_lines :: "int \<Rightarrow> db \<Rightarrow> cart_row list" where
  "cart_lines customer_id d = filter (\<lambda>l. c_customer_id l = customer_id) (Cart d)"

definition ordered_quantity :: "int \<Rightarrow> int \<Rightarrow> db \<Rightarrow> int" where
  "ordered_quantity customer_id product_id d =
     sum_list (map c_quantity
       (filter (\<lambda>l. c_product_id l = product_id) (cart_lines customer_id d)))"



definition product_stock :: "db \<Rightarrow> int \<Rightarrow> int option" where
  "product_stock d product_id =
     map_of (map (\<lambda>p. (p_product_id p, p_stock p)) (Product d)) product_id"





text \<open>
  Constraints of the schema that SQLite enforces or the code maintains: the primary key
  of Product is unique, and every Order_Item row belongs to an order of the Order table
  (rows of both tables are only ever inserted, by \<^const>\<open>create_order\<close>).
\<close>

definition product_ids_unique :: "db \<Rightarrow> bool" where
  "product_ids_unique d = distinct (map p_product_id (Product d))"

definition cart_ids_unique :: "db \<Rightarrow> bool" where
  "cart_ids_unique d = distinct (map c_cart_id (Cart d))"

definition order_items_belong :: "db \<Rightarrow> bool" where
  "order_items_belong d =
     list_all (\<lambda>oi. oi_order_id oi \<in> set (map o_order_id (Order d))) (Order_Item d)"

text \<open>No database call among the next \<open>n\<close> raises.\<close>

definition no_fault :: "nat \<Rightarrow> connection \<Rightarrow> bool" where
  "no_fault n c = (True \<notin> set (take n (faults c)))"

text \<open>
  The Order_Item rows that \<^const>\<open>apply_order_items\<close> appends, given the ids in use, and the
  quantity of a product over the cart items.
\<close>

fun order_item_rows :: "int \<Rightarrow> int list \<Rightarrow> cart_item list \<Rightarrow> order_item_row list" where
  "order_item_rows order_id ids [] = []"
| "order_item_rows order_id ids (item # items) =
     \<lparr>oi_order_item_id = next_rowid ids, oi_order_id = order_id,
      oi_product_id = item_product_id item, oi_quantity = item_quantity item,
      oi_unit_price = item_price item\<rparr>
     # order_item_rows order_id (ids @ [next_rowid ids]) items"

definition item_quantity_of :: "int \<Rightarrow> cart_item list \<Rightarrow> int" where
  "item_quantity_of product_id items =
     sum_list (map item_quantity (filter (\<lambda>it. item_product_id it = product_id) items))"


text \<open>
  The cart lines of a customer for a product, and the write of \<^const>\<open>add_to_cart\<close> on the
  store when no call raises.
\<close>

definition lines_for :: "int \<Rightarrow> int \<Rightarrow> db \<Rightarrow> cart_row list" where
  "lines_for customer_id product_id d =
     filter (\<lambda>l. c_customer_id l = customer_id \<and> c_product_id l = product_id) (Cart d)"

definition cart_added :: "datetime \<Rightarrow> int \<Rightarrow> int \<Rightarrow> int \<Rightarrow> db \<Rightarrow> db" where
  "cart_added now customer_id product_id quantity d =
     (case select_cart_line customer_id product_id d of
        (cart_id, old_quantity) # _ \<Rightarrow>
          snd (update_cart_quantity (old_quantity + quantity) cart_id d)
      | [] \<Rightarrow> snd (insert_cart customer_id product_id quantity now d))"

section \<open>Statements about orders and the cart\<close>

definition orders_with_id :: "int \<Rightarrow> db \<Rightarrow> order_row list" where
  "orders_with_id order_id d = filter (\<lambda>ord. o_order_id ord = order_id) (Order d)"




text \<open>The Cart row that \<^const>\<open>insert_cart\<close> appends.\<close>

definition new_line :: "datetime \<Rightarrow> int \<Rightarrow> int \<Rightarrow> int \<Rightarrow> db \<Rightarrow> cart_row" where
  "new_line now customer_id product_id quantity d =
     \<lparr>c_cart_id = next_rowid (map c_cart_id (Cart d)), c_customer_id = customer_id,
      c_product_id = product_id, c_quantity = quantity, c_added_date = now\<rparr>"

definition unit_of_work_applied ::
  "order_env \<Rightarrow> int \<Rightarrow> string \<Rightarrow> string \<Rightarrow> int \<Rightarrow> db \<Rightarrow> db \<Rightarrow> bool" where
  "unit_of_work_applied env customer_id payment_method shipping_address order_id d d' \<longleftrightarrow>
     order_id = next_rowid (map o_order_id (Order d)) \<and>
     Payment d' = Payment d @
       [\<lparr>pay_payment_id = next_rowid (map pay_payment_id (Payment d)),
         pay_customer_id = customer_id, pay_payment_method = payment_method,
         pay_amount = cart_total customer_id d, pay_payment_date = payment_now env\<rparr>] \<and>
     Shipment d' = Shipment d @
       [\<lparr>s_shipment_id = next_rowid (map s_shipment_id (Shipment d)),
         s_shipment_date = shipment_now env, s_address = shipping_address,
         s_tracking_number = tracking_number_of (uuid4_hex env)\<rparr>] \<and>
     Order d' = Order d @
       [\<lparr>o_order_id = order_id, o_customer_id = customer_id, o_order_date = order_now env,
         o_total_amount = cart_total customer_id d,
         o_payment_id = next_rowid (map pay_payment_id (Payment d)),
         o_shipment_id = next_rowid (map s_shipment_id (Shipment d)),
         o_status = ''Processing''\<rparr>] \<and>
     Order_Item d' = Order_Item d @
       order_item_rows order_id (map oi_order_item_id (Order_Item d))
         (select_cart_items customer_id d) \<and>
     select_cart_items customer_id d \<noteq> [] \<and>
     Product d' =
       map (\<lambda>p. p\<lparr>p_stock := p_stock p - item_quantity_of (p_product_id p)
                                         (select_cart_items customer_id d)\<rparr>) (Product d) \<and>
     Cart d' = filter (\<lambda>l. c_customer_id l \<noteq> customer_id) (Cart d)"

section \<open>Example stores\<close>

text \<open>
  Two of the sample products of \<^verbatim>\<open>init_database\<close>, a connection with no open transaction
  and no failure ahead, and carts over them.
\<close>

definition heattech :: product_row where
  "heattech = \<lparr>p_product_id = 1, p_name = ''Heattech Crew Neck Long Sleeve T-Shirt'',
                p_price = 199 / 10, p_stock = 100\<rparr>"

definition down_jacket :: product_row where
  "down_jacket = \<lparr>p_product_id = 2, p_name = ''Ultra Light Down Jacket'',
                   p_price = 699 / 10, p_stock = 50\<rparr>"

definition sample_store :: db where
  "sample_store = \<lparr>Product = [heattech, down_jacket], Cart = [], Payment = [], Shipment = [],
                    Order = [], Order_Item = []\<rparr>"

definition connect :: "db \<Rightarrow> connection" where
  "connect d = \<lparr>committed = d, working = d, faults = []\<rparr>"

definition sample_env :: order_env where
  "sample_env = \<lparr>payment_now = 100, shipment_now = 101, order_now = 102,
                  uuid4_hex = ''3f2a9c1be07d4e5a8b6c1d2e3f4a5b6c''\<rparr>"

definition cart_store :: db where
  "cart_store = sample_store\<lparr>Cart :=
     [\<lparr>c_cart_id = 1, c_customer_id = 7, c_product_id = 1, c_quantity = 3, c_added_date = 50\<rparr>,
      \<lparr>c_cart_id = 2, c_customer_id = 7, c_product_id = 2, c_quantity = 1, c_added_date = 51\<rparr>,
      \<lparr>c_cart_id = 3, c_customer_id = 8, c_product_id = 1, c_quantity = 2, c_added_date = 52\<rparr>]\<rparr>"

definition cart_store_ordered :: db where
  "cart_store_ordered =
     \<lparr>Product = [heattech\<lparr>p_stock := 97\<rparr>, down_jacket\<lparr>p_stock := 49\<rparr>],
      Cart = [\<lparr>c_cart_id = 3, c_customer_id = 8, c_product_id = 1, c_quantity = 2,
               c_added_date = 52\<rparr>],
      Payment = [\<lparr>pay_payment_id = 1, pay_customer_id = 7, pay_payment_method = ''PayPal'',
                  pay_amount = 648 / 5, pay_payment_date = 100\<rparr>],
      Shipment = [\<lparr>s_shipment_id = 1, s_shipment_date = 101, s_address = ''12 Main St'',
                   s_tracking_number = ''UNIQLO3F2A9C1B''\<rparr>],
      Order = [\<lparr>o_order_id = 1, o_customer_id = 7, o_order_date = 102, o_total_amount = 648 / 5,
                o_payment_id = 1, o_shipment_id = 1, o_status = ''Processing''\<rparr>],
      Order_Item =
        [\<lparr>oi_order_item_id = 1, oi_order_id = 1, oi_product_id = 1, oi_quantity = 3,
          oi_unit_price = 199 / 10\<rparr>,
         \<lparr>oi_order_item_id = 2, oi_order_id = 1, oi_product_id = 2, oi_quantity = 1,
          oi_unit_price = 699 / 10\<rparr>]\<rparr>"

text \<open>A connection on which the sixth database call raises.\<close>

definition failing_connection :: connection where
  "failing_connection =
     \<lparr>committed = cart_store, working = cart_store,
      faults = [False, False, False, False, False, True]\<rparr>"

text \<open>Carts built by \<^const>\<open>add_to_cart\<close>: one line; a second line for a product id that
  is not in Product; the same product added twice (2, then 3); a negative quantity of a
  missing product.\<close>

definition one_line_store :: db where
  "one_line_store = sample_store\<lparr>Cart :=
     [\<lparr>c_cart_id = 1, c_customer_id = 7, c_product_id = 1, c_quantity = 2, c_added_date = 50\<rparr>]\<rparr>"

definition orphan_store :: db where
  "orphan_store = sample_store\<lparr>Cart :=
     [\<lparr>c_cart_id = 1, c_customer_id = 7, c_product_id = 1, c_quantity = 2, c_added_date = 50\<rparr>,
      \<lparr>c_cart_id = 2, c_customer_id = 7, c_product_id = 99, c_quantity = 1, c_added_date = 51\<rparr>]\<rparr>"

definition merged_store :: db where
  "merged_store = sample_store\<lparr>Cart :=
     [\<lparr>c_cart_id = 1, c_customer_id = 7, c_product_id = 1, c_quantity = 5, c_added_date = 50\<rparr>]\<rparr>"

definition unchecked_store :: db where
  "unchecked_store = sample_store\<lparr>Cart :=
     [\<lparr>c_cart_id = 1, c_customer_id = 7, c_product_id = 99, c_quantity = - 2,
       c_added_date = 50\<rparr>]\<rparr>"

text \<open>A product with stock 2 and a cart line of 3 units; a product with stock 0, before
  and after one unit is added to the cart.\<close>

definition scarce_store :: db where
  "scarce_store = sample_store\<lparr>
     Product := [heattech\<lparr>p_stock := 2\<rparr>],
     Cart := [\<lparr>c_cart_id = 1, c_customer_id = 7, c_product_id = 1, c_quantity = 3,
               c_added_date = 50\<rparr>]\<rparr>"

definition sold_out_store :: db where
  "sold_out_store = sample_store\<lparr>Product := [heattech\<lparr>p_stock := 0\<rparr>]\<rparr>"

definition sold_out_cart :: db where
  "sold_out_cart = sold_out_store\<lparr>
     Cart := [\<lparr>c_cart_id = 1, c_customer_id = 7, c_product_id = 1, c_quantity = 1,
               c_added_date = 50\<rparr>]\<rparr>"

section \<open>Properties of the connection primitives\<close>

lemma next_rowid_fresh_aux: "x \<le> fold max xs x \<and> (\<forall>y \<in> set xs. y \<le> fold max xs (x::int))"
proof (induction xs arbitrary: x)
  case Nil
  show ?case by simp
next
  case (Cons a xs)
  have "max a x \<le> fold max xs (max a x)" and "\<forall>y \<in> set xs. y \<le> fold max xs (max a x)"
    using Cons.IH [of "max a x"] by simp_all
  then show ?case by auto
qed

lemma next_rowid_fresh: "next_rowid ids \<notin> set ids"
proof (cases ids)
  case Nil
  then show ?thesis by simp
next
  case (Cons x xs)
  have "\<forall>y \<in> set (x # xs). y < fold max xs x + 1"
    using next_rowid_fresh_aux [of x xs] by auto
  then show ?thesis
    unfolding Cons next_rowid_def by auto
qed

lemma next_fault_eq: "next_fault c = (raises c, c\<lparr>faults := tl (faults c)\<rparr>)"
  by (cases "faults c") (simp_all add: next_fault_def raises_def)

lemma and_then_Inr:
  "and_then m f c = (Inr y, c') \<longleftrightarrow> (\<exists>x c1. m c = (Inr x, c1) \<and> f x c1 = (Inr y, c'))"
  by (auto simp: and_then_def split: prod.splits sum.splits)

lemma and_then_Inl:
  "and_then m f c = (Inl e, c') \<longleftrightarrow>
     m c = (Inl e, c') \<or> (\<exists>x c1. m c = (Inr x, c1) \<and> f x c1 = (Inl e, c'))"
  by (auto simp: and_then_def split: prod.splits sum.splits)

lemma return_value_eq: "return_value x c = (r, c') \<longleftrightarrow> r = Inr x \<and> c' = c"
  by (auto simp: return_value_def)

lemma cursor_execute_Inr:
  "cursor_execute stmt c = (Inr r, c') \<longleftrightarrow>
     \<not> raises c \<and> r = fst (stmt (working c)) \<and>
     c' = c\<lparr>faults := tl (faults c), working := snd (stmt (working c))\<rparr>"
  by (auto simp: cursor_execute_def next_fault_eq split: prod.splits bool.splits)

lemma cursor_execute_Inl:
  "cursor_execute stmt c = (Inl e, c') \<longleftrightarrow> raises c \<and> c' = c\<lparr>faults := tl (faults c)\<rparr>"
  by (cases e) (auto simp: cursor_execute_def next_fault_eq split: prod.splits bool.splits)

lemma execute_select_Inr:
  "execute_select q c = (Inr r, c') \<longleftrightarrow>
     \<not> raises c \<and> r = q (working c) \<and> c' = c\<lparr>faults := tl (faults c)\<rparr>"
  by (auto simp: execute_select_def next_fault_eq split: bool.splits)

lemma execute_select_Inl:
  "execute_select q c = (Inl e, c') \<longleftrightarrow> raises c \<and> c' = c\<lparr>faults := tl (faults c)\<rparr>"
  by (cases e) (auto simp: execute_select_def next_fault_eq split: bool.splits)

lemma commit_Inr:
  "commit c = (Inr u, c') \<longleftrightarrow>
     \<not> raises c \<and> c' = c\<lparr>faults := tl (faults c), committed := working c\<rparr>"
  by (auto simp: commit_def next_fault_eq split: bool.splits)

lemma commit_Inl:
  "commit c = (Inl e, c') \<longleftrightarrow> raises c \<and> c' = c\<lparr>faults := tl (faults c)\<rparr>"
  by (cases e) (auto simp: commit_def next_fault_eq split: bool.splits)

lemma faults_tl_drop: "tl (drop n xs) = drop (Suc n) xs"
  by (simp add: drop_Suc tl_drop)

lemma create_order_items_Inr:
  "create_order_items oid items c = (Inr u, c') \<Longrightarrow>
     c' = c\<lparr>faults := drop (2 * length items) (faults c),
            working := apply_order_items oid items (working c)\<rparr>"
proof (induction items arbitrary: c)
  case Nil
  then show ?case by (simp add: return_value_eq)
next
  case (Cons item items)
  from Cons.prems obtain c2 where
    run: "create_order_items oid items c2 = (Inr u, c')" and
    c2: "c2 = c\<lparr>faults := tl (tl (faults c)),
               working := snd (update_stock (item_quantity item) (item_product_id item)
                 (snd (insert_order_item oid (item_product_id item) (item_quantity item)
                         (item_price item) (working c))))\<rparr>"
    by (auto simp: and_then_Inr cursor_execute_Inr)
  show ?case
    using Cons.IH [OF run] by (simp add: c2 drop_Suc tl_drop)
qed

lemma create_order_items_committed:
  "create_order_items oid items c = (r, c') \<Longrightarrow> committed c' = committed c"
proof (induction items arbitrary: c)
  case Nil
  then show ?case by (simp add: return_value_eq)
next
  case (Cons item items)
  show ?case
  proof (cases r)
    case (Inl e)
    with Cons.prems Cons.IH show ?thesis
      by (fastforce simp: and_then_Inl cursor_execute_Inr cursor_execute_Inl)
  next
    case (Inr u)
    with Cons.prems Cons.IH show ?thesis
      by (fastforce simp: and_then_Inr cursor_execute_Inr)
  qed
qed

lemma create_order_try_Some:
  assumes "create_order_try env cid pm addr c = (Inr (Some oid), c')"
  shows "select_cart_items cid (working c) \<noteq> []"
    and "oid = fst (placed env cid pm addr (working c))"
    and "working c' = snd (placed env cid pm addr (working c))"
    and "committed c' = working c'"
proof -
  let ?items = "select_cart_items cid (working c)"
  from assms show ne: "?items \<noteq> []"
    by (auto simp: create_order_try_def get_cart_items_def execute_query_def and_then_Inr
        execute_select_Inr return_value_eq split: if_splits)
  from assms ne obtain c1 c2 c3 c4 c5 pid sid u where
    s1: "cursor_execute (insert_payment cid pm (cart_total cid (working c)) (payment_now env))
           (c\<lparr>faults := tl (faults c)\<rparr>) = (Inr pid, c1)" and
    s2: "cursor_execute (insert_shipment (shipment_now env) addr
           (tracking_number_of (uuid4_hex env))) c1 = (Inr sid, c2)" and
    s3: "cursor_execute (insert_order cid (order_now env) (cart_total cid (working c)) pid sid
           ''Processing'') c2 = (Inr oid, c3)" and
    s4: "create_order_items oid ?items c3 = (Inr u, c4)" and
    s5: "cursor_execute (clear_cart cid) c4 = (Inr (length (cart_lines cid (working c4))), c5)" and
    s6: "commit c5 = (Inr (), c')"
    by (auto simp: create_order_try_def get_cart_items_def execute_query_def and_then_Inr
        execute_select_Inr return_value_eq cart_total_def Let_def cart_lines_def
        cursor_execute_Inr clear_cart_def split: if_splits)
  note w4 = create_order_items_Inr [OF s4]
  from s1 s2 s3 show "oid = fst (placed env cid pm addr (working c))"
    by (auto simp: cursor_execute_Inr placed_def split: prod.splits)
  from s1 s2 s3 s5 s6 w4 show "working c' = snd (placed env cid pm addr (working c))"
    by (auto simp: cursor_execute_Inr commit_Inr placed_def split: prod.splits)
  from s6 show "committed c' = working c'"
    by (auto simp: commit_Inr)
qed

lemma create_order_try_None:
  "create_order_try env cid pm addr c = (Inr None, c') \<Longrightarrow>
     select_cart_items cid (working c) = [] \<and> c' = c\<lparr>faults := tl (faults c)\<rparr>"
  by (auto simp: create_order_try_def get_cart_items_def execute_query_def and_then_Inr
      execute_select_Inr return_value_eq Let_def split: if_splits)

lemma cursor_execute_committed:
  "cursor_execute stmt c = (r, c') \<Longrightarrow> committed c' = committed c"
  by (cases r) (auto simp: cursor_execute_Inr cursor_execute_Inl)

lemma execute_select_committed:
  "execute_select q c = (r, c') \<Longrightarrow> committed c' = committed c"
  by (cases r) (auto simp: execute_select_Inr execute_select_Inl)

lemma and_then_fails_safe:
  assumes run: "and_then m f c = (Inl e, c')"
    and first: "\<And>r c1. m c = (r, c1) \<Longrightarrow> committed c1 = committed c"
    and rest: "\<And>x c1. f x c1 = (Inl e, c') \<Longrightarrow> committed c' = committed c1"
  shows "committed c' = committed c"
proof -
  from run consider "m c = (Inl e, c')" | x c1 where "m c = (Inr x, c1)" "f x c1 = (Inl e, c')"
    by (auto simp: and_then_Inl)
  then show ?thesis
  proof cases
    case 1
    then show ?thesis by (rule first)
  next
    case 2
    from first [OF 2(1)] rest [OF 2(2)] show ?thesis by simp
  qed
qed

lemma create_order_try_Inl:
  assumes "create_order_try env cid pm addr c = (Inl e, c')"
  shows "committed c' = committed c"
proof -
  have t6: "committed c' = committed c6"
    if "and_then commit (\<lambda>_. return_value (Some oid)) c6 = (Inl e, c')" for oid c6
    using that by (auto simp: and_then_Inl commit_Inl commit_Inr return_value_eq)
  have t5: "committed c' = committed c5"
    if "and_then (cursor_execute (clear_cart cid))
          (\<lambda>_. and_then commit (\<lambda>_. return_value (Some oid))) c5 = (Inl e, c')" for oid c5
    using that by (rule and_then_fails_safe) (erule cursor_execute_committed, erule t6)
  have t4: "committed c' = committed c4"
    if "and_then (create_order_items oid items)
          (\<lambda>_. and_then (cursor_execute (clear_cart cid))
             (\<lambda>_. and_then commit (\<lambda>_. return_value (Some oid)))) c4 = (Inl e, c')"
    for oid items c4
    using that by (rule and_then_fails_safe) (erule create_order_items_committed, erule t5)
  have t3: "committed c' = committed c3"
    if "and_then (cursor_execute (insert_order cid od total pid sid st))
          (\<lambda>oid. and_then (create_order_items oid items)
          (\<lambda>_. and_then (cursor_execute (clear_cart cid))
             (\<lambda>_. and_then commit (\<lambda>_. return_value (Some oid))))) c3 = (Inl e, c')"
    for od total pid sid st items c3
    using that by (rule and_then_fails_safe) (erule cursor_execute_committed, erule t4)
  have t2: "committed c' = committed c2"
    if "and_then (cursor_execute (insert_shipment sd addr tn))
          (\<lambda>sid. and_then (cursor_execute (insert_order cid od total pid sid st))
          (\<lambda>oid. and_then (create_order_items oid items)
          (\<lambda>_. and_then (cursor_execute (clear_cart cid))
             (\<lambda>_. and_then commit (\<lambda>_. return_value (Some oid)))))) c2 = (Inl e, c')"
    for sd tn od total pid st items c2
    using that by (rule and_then_fails_safe) (erule cursor_execute_committed, erule t3)
  have t1: "committed c' = committed c1"
    if "and_then (cursor_execute (insert_payment cid pm total pd))
          (\<lambda>pid. and_then (cursor_execute (insert_shipment sd addr tn))
          (\<lambda>sid. and_then (cursor_execute (insert_order cid od total pid sid st))
          (\<lambda>oid. and_then (create_order_items oid items)
          (\<lambda>_. and_then (cursor_execute (clear_cart cid))
             (\<lambda>_. and_then commit (\<lambda>_. return_value (Some oid))))))) c1 = (Inl e, c')"
    for pd sd tn od total st items c1
    using that by (rule and_then_fails_safe) (erule cursor_execute_committed, erule t2)
  from assms show ?thesis
    unfolding create_order_try_def get_cart_items_def execute_query_def Let_def
  proof (rule and_then_fails_safe)
    fix r c1
    assume "execute_select (select_cart_items cid) c = (r, c1)"
    then show "committed c1 = committed c" by (rule execute_select_committed)
  next
    fix x c1
    assume "(if x = [] then return_value None
          else and_then (cursor_execute (insert_payment cid pm (sum_list (map item_total_price x))
                 (payment_now env)))
          (\<lambda>pid. and_then (cursor_execute (insert_shipment (shipment_now env) addr
                 (tracking_number_of (uuid4_hex env))))
          (\<lambda>sid. and_then (cursor_execute (insert_order cid (order_now env)
                 (sum_list (map item_total_price x)) pid sid ''Processing''))
          (\<lambda>oid. and_then (create_order_items oid x)
          (\<lambda>_. and_then (cursor_execute (clear_cart cid))
             (\<lambda>_. and_then commit (\<lambda>_. return_value (Some oid)))))))) c1 = (Inl e, c')"
    then show "committed c' = committed c1"
      by (cases "x = []") (simp_all add: return_value_eq t1)
  qed
qed

lemma create_order_Some:
  assumes "create_order env cid pm addr c = (Some oid, c')"
  shows "select_cart_items cid (working c) \<noteq> []"
    and "oid = fst (placed env cid pm addr (working c))"
    and "committed c' = snd (placed env cid pm addr (working c))"
    and "working c' = committed c'"
proof -
  from assms have run: "create_order_try env cid pm addr c = (Inr (Some oid), c')"
    by (auto simp: create_order_def split: prod.splits sum.splits)
  from create_order_try_Some [OF run]
  show "select_cart_items cid (working c) \<noteq> []"
    and "oid = fst (placed env cid pm addr (working c))"
    and "committed c' = snd (placed env cid pm addr (working c))"
    and "working c' = committed c'"
    by simp_all
qed

lemma create_order_None:
  assumes "create_order env cid pm addr c = (None, c')"
  shows "committed c' = committed c"
    and "working c' = working c \<or> working c' = committed c"
proof -
  from assms consider "create_order_try env cid pm addr c = (Inr None, c')"
    | e c1 where "create_order_try env cid pm addr c = (Inl e, c1)" "c' = rollback c1"
    by (auto simp: create_order_def split: prod.splits sum.splits)
  then have "committed c' = committed c \<and> (working c' = working c \<or> working c' = committed c)"
  proof cases
    case 1
    from create_order_try_None [OF 1] show ?thesis by simp
  next
    case 2
    from create_order_try_Inl [OF 2(1)] 2(2) show ?thesis by (simp add: rollback_def)
  qed
  then show "committed c' = committed c"
    and "working c' = working c \<or> working c' = committed c"
    by simp_all
qed

section \<open>What a placed order writes\<close>

lemma apply_order_items_untouched:
  "Payment (apply_order_items oid items d) = Payment d"
  "Shipment (apply_order_items oid items d) = Shipment d"
  "Order (apply_order_items oid items d) = Order d"
  "Cart (apply_order_items oid items d) = Cart d"
  by (induction items arbitrary: d) (simp_all add: update_stock_def insert_order_item_def Let_def)

lemma apply_order_items_Order_Item:
  "Order_Item (apply_order_items oid items d) =
     Order_Item d @ order_item_rows oid (map oi_order_item_id (Order_Item d)) items"
  by (induction items arbitrary: d) (simp_all add: update_stock_def insert_order_item_def Let_def)

lemma apply_order_items_Product:
  "Product (apply_order_items oid items d) =
     map (\<lambda>p. p\<lparr>p_stock := p_stock p - item_quantity_of (p_product_id p) items\<rparr>) (Product d)"
proof (induction items arbitrary: d)
  case Nil
  show ?case by (simp add: item_quantity_of_def)
next
  case (Cons item items)
  show ?case
    by (simp add: Cons.IH update_stock_def insert_order_item_def Let_def item_quantity_of_def
        comp_def)
qed

lemma order_item_rows_fields:
  "map (\<lambda>oi. (oi_order_id oi, oi_product_id oi, oi_quantity oi, oi_unit_price oi))
     (order_item_rows oid ids items) =
   map (\<lambda>it. (oid, item_product_id it, item_quantity it, item_price it)) items"
  by (induction items arbitrary: ids) simp_all

lemma order_item_rows_length: "length (order_item_rows oid ids items) = length items"
  by (induction items arbitrary: ids) simp_all

lemma order_item_rows_order_id:
  "oi \<in> set (order_item_rows oid ids items) \<Longrightarrow> oi_order_id oi = oid"
  by (induction items arbitrary: ids) auto

lemma placed_order_id: "fst (placed env cid pm addr d) = next_rowid (map o_order_id (Order d))"
  by (simp add: placed_def insert_payment_def insert_shipment_def insert_order_def Let_def)

lemma placed_Payment:
  "Payment (snd (placed env cid pm addr d)) =
     Payment d @ [\<lparr>pay_payment_id = next_rowid (map pay_payment_id (Payment d)),
                   pay_customer_id = cid, pay_payment_method = pm,
                   pay_amount = cart_total cid d, pay_payment_date = payment_now env\<rparr>]"
  by (simp add: placed_def insert_payment_def insert_shipment_def insert_order_def Let_def
      clear_cart_def apply_order_items_untouched)

lemma placed_Shipment:
  "Shipment (snd (placed env cid pm addr d)) =
     Shipment d @ [\<lparr>s_shipment_id = next_rowid (map s_shipment_id (Shipment d)),
                    s_shipment_date = shipment_now env, s_address = addr,
                    s_tracking_number = tracking_number_of (uuid4_hex env)\<rparr>]"
  by (simp add: placed_def insert_payment_def insert_shipment_def insert_order_def Let_def
      clear_cart_def apply_order_items_untouched)

lemma placed_Order:
  "Order (snd (placed env cid pm addr d)) =
     Order d @ [\<lparr>o_order_id = next_rowid (map o_order_id (Order d)), o_customer_id = cid,
                 o_order_date = order_now env, o_total_amount = cart_total cid d,
                 o_payment_id = next_rowid (map pay_payment_id (Payment d)),
                 o_shipment_id = next_rowid (map s_shipment_id (Shipment d)),
                 o_status = ''Processing''\<rparr>]"
  by (simp add: placed_def insert_payment_def insert_shipment_def insert_order_def Let_def
      clear_cart_def apply_order_items_untouched)

lemma placed_Cart:
  "Cart (snd (placed env cid pm addr d)) = filter (\<lambda>l. c_customer_id l \<noteq> cid) (Cart d)"
  by (simp add: placed_def insert_payment_def insert_shipment_def insert_order_def Let_def
      clear_cart_def apply_order_items_untouched)

lemma placed_Order_Item:
  "Order_Item (snd (placed env cid pm addr d)) =
     Order_Item d @ order_item_rows (next_rowid (map o_order_id (Order d)))
       (map oi_order_item_id (Order_Item d)) (select_cart_items cid d)"
  by (simp add: placed_def insert_payment_def insert_shipment_def insert_order_def Let_def
      clear_cart_def apply_order_items_Order_Item)

lemma placed_Product:
  "Product (snd (placed env cid pm addr d)) =
     map (\<lambda>p. p\<lparr>p_stock := p_stock p - item_quantity_of (p_product_id p)
                                         (select_cart_items cid d)\<rparr>) (Product d)"
  by (simp add: placed_def insert_payment_def insert_shipment_def insert_order_def Let_def
      clear_cart_def apply_order_items_Product)








section \<open>The cart and the run without failures\<close>

lemma no_fault_Suc:
  "no_fault (Suc n) c \<longleftrightarrow> \<not> raises c \<and> no_fault n (c\<lparr>faults := tl (faults c)\<rparr>)"
  by (cases "faults c") (auto simp: no_fault_def raises_def)

lemma no_fault_0: "no_fault 0 c"
  by (simp add: no_fault_def)

lemma no_fault_working [simp]: "no_fault n (c\<lparr>working := d\<rparr>) = no_fault n c"
  by (simp add: no_fault_def)

lemma no_fault_committed [simp]: "no_fault n (c\<lparr>committed := d\<rparr>) = no_fault n c"
  by (simp add: no_fault_def)

lemma execute_update_Inr:
  "execute_update stmt c = (Inr r, c') \<longleftrightarrow>
     no_fault 2 c \<and> r = fst (stmt (working c)) \<and>
     c' = c\<lparr>faults := drop 2 (faults c), working := snd (stmt (working c)),
            committed := snd (stmt (working c))\<rparr>"
proof -
  have two: "no_fault 2 c \<longleftrightarrow> \<not> raises c \<and> \<not> raises (c\<lparr>faults := tl (faults c)\<rparr>)"
    by (simp add: numeral_2_eq_2 no_fault_Suc no_fault_0)
  have drop2: "drop 2 (faults c) = tl (tl (faults c))"
    by (simp add: numeral_2_eq_2 drop_Suc)
  show ?thesis
    by (auto simp: execute_update_def and_then_Inr cursor_execute_Inr commit_Inr return_value_eq
        two drop2 raises_def)
qed

lemma add_to_cart_Inr:
  "add_to_cart now cid pid q c = (Inr b, c') \<longleftrightarrow>
     no_fault 3 c \<and> b \<and>
     c' = c\<lparr>faults := drop 3 (faults c), working := cart_added now cid pid q (working c),
            committed := cart_added now cid pid q (working c)\<rparr>"
proof -
  have three: "no_fault 3 c \<longleftrightarrow> \<not> raises c \<and> no_fault 2 (c\<lparr>faults := tl (faults c)\<rparr>)"
    by (simp add: numeral_3_eq_3 numeral_2_eq_2 no_fault_Suc)
  have drop3: "drop 3 (faults c) = drop 2 (tl (faults c))"
    by (simp add: numeral_3_eq_3 numeral_2_eq_2 drop_Suc)
  show ?thesis
  proof (cases "select_cart_line cid pid (working c)")
    case Nil
    then show ?thesis
      by (auto simp: add_to_cart_def execute_query_def and_then_Inr execute_select_Inr
          execute_update_Inr return_value_eq three drop3 cart_added_def)
  next
    case (Cons a rest)
    obtain cart_id old where a: "a = (cart_id, old)" by (cases a)
    from Cons a show ?thesis
      by (auto simp: add_to_cart_def execute_query_def and_then_Inr execute_select_Inr
          execute_update_Inr return_value_eq three drop3 cart_added_def)
  qed
qed

lemma select_cart_line_lines_for:
  "select_cart_line cid pid d = map (\<lambda>l. (c_cart_id l, c_quantity l)) (lines_for cid pid d)"
  by (simp add: select_cart_line_def lines_for_def)

lemma cart_added_new:
  assumes "lines_for cid pid d = []"
  shows "cart_added now cid pid q d =
           d\<lparr>Cart := Cart d @ [\<lparr>c_cart_id = next_rowid (map c_cart_id (Cart d)),
                c_customer_id = cid, c_product_id = pid, c_quantity = q, c_added_date = now\<rparr>]\<rparr>"
  using assms by (simp add: cart_added_def select_cart_line_lines_for insert_cart_def)

lemma cart_added_existing:
  assumes "lines_for cid pid d = l0 # rest"
  shows "cart_added now cid pid q d =
           d\<lparr>Cart := map (\<lambda>l. if c_cart_id l = c_cart_id l0
                                then l\<lparr>c_quantity := c_quantity l0 + q\<rparr> else l) (Cart d)\<rparr>"
  using assms by (simp add: cart_added_def select_cart_line_lines_for update_cart_quantity_def)

lemma lines_for_cart_added_new:
  assumes "lines_for cid pid d = []"
  shows "lines_for cid pid (cart_added now cid pid q d) =
           [\<lparr>c_cart_id = next_rowid (map c_cart_id (Cart d)),
             c_customer_id = cid, c_product_id = pid, c_quantity = q, c_added_date = now\<rparr>]"
  using assms by (simp add: cart_added_new) (simp add: lines_for_def)

lemma lines_for_cart_added_existing:
  assumes uniq: "cart_ids_unique d" and lines: "lines_for cid pid d = l0 # rest"
  shows "lines_for cid pid (cart_added now cid pid q d) =
           l0\<lparr>c_quantity := c_quantity l0 + q\<rparr> # rest"
proof -
  let ?P = "\<lambda>l. c_customer_id l = cid \<and> c_product_id l = pid"
  let ?upd = "\<lambda>l. if c_cart_id l = c_cart_id l0 then l\<lparr>c_quantity := c_quantity l0 + q\<rparr> else l"
  have "distinct (map c_cart_id (filter ?P (Cart d)))"
    using uniq by (simp add: cart_ids_unique_def distinct_map_filter)
  with lines have "c_cart_id l0 \<notin> c_cart_id ` set rest"
    by (simp add: lines_for_def)
  then have fresh: "\<forall>l \<in> set rest. c_cart_id l \<noteq> c_cart_id l0"
    by (metis imageI)
  have "filter ?P (map ?upd (Cart d)) = map ?upd (filter ?P (Cart d))"
    by (induction "Cart d" arbitrary: d) (auto simp: filter_map comp_def)
  also have "\<dots> = map ?upd (l0 # rest)"
    using lines by (simp add: lines_for_def)
  also have "\<dots> = l0\<lparr>c_quantity := c_quantity l0 + q\<rparr> # rest"
    using fresh by (simp add: map_idI)
  finally show ?thesis
    by (simp add: cart_added_existing [OF lines] lines_for_def)
qed

lemma cart_added_ids_unique:
  assumes "cart_ids_unique d"
  shows "cart_ids_unique (cart_added now cid pid q d)"
proof (cases "lines_for cid pid d")
  case Nil
  with assms next_rowid_fresh [of "map c_cart_id (Cart d)"] show ?thesis
    by (simp add: cart_added_new cart_ids_unique_def)
next
  case (Cons l0 rest)
  let ?upd = "\<lambda>l. if c_cart_id l = c_cart_id l0 then l\<lparr>c_quantity := c_quantity l0 + q\<rparr> else l"
  have ids: "map c_cart_id (map ?upd xs) = map c_cart_id xs" for xs
    by (induction xs) simp_all
  have "Cart (cart_added now cid pid q d) = map ?upd (Cart d)"
    by (simp add: cart_added_existing [OF Cons])
  then have "map c_cart_id (Cart (cart_added now cid pid q d)) = map c_cart_id (Cart d)"
    by (simp only: ids)
  with assms show ?thesis
    by (simp only: cart_ids_unique_def)
qed

lemma cart_added_length:
  "length (Cart (cart_added now cid pid q d)) =
     (if lines_for cid pid d = [] then length (Cart d) + 1 else length (Cart d))"
  by (cases "lines_for cid pid d") (simp_all add: cart_added_new cart_added_existing)

lemma raises_drop: "raises (c\<lparr>faults := drop k (faults c0)\<rparr>) \<longleftrightarrow> k < length (faults c0) \<and> faults c0 ! k"
proof (cases "k < length (faults c0)")
  case True
  then show ?thesis
    by (simp add: raises_def Cons_nth_drop_Suc [symmetric])
next
  case False
  then show ?thesis by (simp add: raises_def)
qed

lemma no_fault_at:
  assumes "no_fault n c0" and "k < n" and "faults c = drop k (faults c0)"
  shows "\<not> raises c"
proof
  assume "raises c"
  then have "raises (c\<lparr>faults := drop k (faults c0)\<rparr>)"
    using assms(3) by (simp add: raises_def)
  then have k: "k < length (faults c0)" and "faults c0 ! k"
    by (simp_all add: raises_drop)
  then have "True = take n (faults c0) ! k"
    using assms(2) by simp
  also have "\<dots> \<in> set (take n (faults c0))"
    using k assms(2) by (intro nth_mem) simp
  finally show False
    using assms(1) by (simp add: no_fault_def)
qed

lemma no_fault_range:
  assumes "no_fault n c0" and "k + m \<le> n" and "faults c = drop k (faults c0)"
  shows "no_fault m c"
proof -
  have "take m (drop k (faults c0)) = drop k (take (k + m) (faults c0))"
    by (simp add: drop_take)
  then have "set (take m (faults c)) \<subseteq> set (take (k + m) (faults c0))"
    using assms(3) by (simp add: set_drop_subset)
  also have "\<dots> \<subseteq> set (take n (faults c0))"
    using assms(2) by (rule set_take_subset_set_take)
  finally show ?thesis
    using assms(1) by (auto simp: no_fault_def)
qed

lemma and_then_run: "m c = (Inr x, c1) \<Longrightarrow> and_then m f c = f x c1"
  by (simp add: and_then_def)

lemma cursor_execute_at:
  assumes "no_fault n c0" and "k < n" and "faults c = drop k (faults c0)"
  shows "cursor_execute stmt c =
           (Inr (fst (stmt (working c))),
            c\<lparr>faults := drop (Suc k) (faults c0), working := snd (stmt (working c))\<rparr>)"
  using no_fault_at [OF assms] assms(3) by (simp add: cursor_execute_Inr faults_tl_drop)

lemma commit_at:
  assumes "no_fault n c0" and "k < n" and "faults c = drop k (faults c0)"
  shows "commit c = (Inr (), c\<lparr>faults := drop (Suc k) (faults c0), committed := working c\<rparr>)"
  using no_fault_at [OF assms] assms(3) by (simp add: commit_Inr faults_tl_drop)

lemma execute_select_at:
  assumes "no_fault n c0" and "k < n" and "faults c = drop k (faults c0)"
  shows "execute_select q c = (Inr (q (working c)), c\<lparr>faults := drop (Suc k) (faults c0)\<rparr>)"
  using no_fault_at [OF assms] assms(3) by (simp add: execute_select_Inr faults_tl_drop)

lemma create_order_items_at:
  assumes "no_fault n c0" and "k + 2 * length items \<le> n" and "faults c = drop k (faults c0)"
  shows "create_order_items oid items c =
       (Inr (), c\<lparr>faults := drop (k + 2 * length items) (faults c0),
                 working := apply_order_items oid items (working c)\<rparr>)"
  using assms(2,3)
proof (induction items arbitrary: c k)
  case Nil
  then show ?case by (simp add: return_value_def)
next
  case (Cons item items)
  let ?d1 = "snd (insert_order_item oid (item_product_id item) (item_quantity item)
                    (item_price item) (working c))"
  let ?d2 = "snd (update_stock (item_quantity item) (item_product_id item) ?d1)"
  let ?c1 = "c\<lparr>faults := drop (Suc k) (faults c0), working := ?d1\<rparr>"
  let ?c2 = "c\<lparr>faults := drop (Suc (Suc k)) (faults c0), working := ?d2\<rparr>"
  from Cons.prems have k: "k < n" "Suc k < n" "Suc (Suc k) + 2 * length items \<le> n"
    by simp_all
  have e1: "cursor_execute (insert_order_item oid (item_product_id item) (item_quantity item)
              (item_price item)) c = (Inr (fst (insert_order_item oid (item_product_id item)
              (item_quantity item) (item_price item) (working c))), ?c1)"
    by (rule cursor_execute_at [OF assms(1) k(1) Cons.prems(2)])
  have e2: "cursor_execute (update_stock (item_quantity item) (item_product_id item)) ?c1 =
              (Inr (fst (update_stock (item_quantity item) (item_product_id item) ?d1)), ?c2)"
    using cursor_execute_at [OF assms(1) k(2), of ?c1] by simp
  have "create_order_items oid (item # items) c = create_order_items oid items ?c2"
    by (simp add: and_then_def e1 e2)
  also have "\<dots> = (Inr (), ?c2\<lparr>faults := drop (Suc (Suc k) + 2 * length items) (faults c0),
                 working := apply_order_items oid items (working ?c2)\<rparr>)"
    by (rule Cons.IH [OF k(3)]) simp
  finally show ?case by simp
qed

lemma create_order_run:
  assumes items: "select_cart_items cid (working c) \<noteq> []"
    and nf: "no_fault (2 * length (select_cart_items cid (working c)) + 6) c"
  shows "create_order env cid pm addr c =
           (Some (fst (placed env cid pm addr (working c))),
            c\<lparr>faults := drop (2 * length (select_cart_items cid (working c)) + 6) (faults c),
              working := snd (placed env cid pm addr (working c)),
              committed := snd (placed env cid pm addr (working c))\<rparr>)"
proof -
  let ?items = "select_cart_items cid (working c)"
  let ?n = "2 * length ?items"
  let ?total = "sum_list (map item_total_price ?items)"
  define pid where "pid = fst (insert_payment cid pm ?total (payment_now env) (working c))"
  define d1 where "d1 = snd (insert_payment cid pm ?total (payment_now env) (working c))"
  define sid where
    "sid = fst (insert_shipment (shipment_now env) addr (tracking_number_of (uuid4_hex env)) d1)"
  define d2 where
    "d2 = snd (insert_shipment (shipment_now env) addr (tracking_number_of (uuid4_hex env)) d1)"
  define oid where
    "oid = fst (insert_order cid (order_now env) ?total pid sid ''Processing'' d2)"
  define d3 where
    "d3 = snd (insert_order cid (order_now env) ?total pid sid ''Processing'' d2)"
  define d4 where "d4 = apply_order_items oid ?items d3"
  define d5 where "d5 = snd (clear_cart cid d4)"
  have placed: "placed env cid pm addr (working c) = (oid, d5)"
    by (simp add: placed_def cart_total_def pid_def d1_def sid_def d2_def oid_def d3_def
        d4_def d5_def split: prod.splits)
  let ?c0 = "c\<lparr>faults := drop (Suc 0) (faults c)\<rparr>"
  let ?c1 = "c\<lparr>faults := drop (Suc (Suc 0)) (faults c), working := d1\<rparr>"
  let ?c2 = "c\<lparr>faults := drop (Suc (Suc (Suc 0))) (faults c), working := d2\<rparr>"
  let ?c3 = "c\<lparr>faults := drop (Suc (Suc (Suc (Suc 0)))) (faults c), working := d3\<rparr>"
  let ?c4 = "c\<lparr>faults := drop (Suc (Suc (Suc (Suc 0))) + ?n) (faults c), working := d4\<rparr>"
  let ?c5 = "c\<lparr>faults := drop (Suc (Suc (Suc (Suc (Suc 0))) + ?n)) (faults c), working := d5\<rparr>"
  let ?c6 = "c\<lparr>faults := drop (Suc (Suc (Suc (Suc (Suc (Suc 0))) + ?n))) (faults c),
               working := d5, committed := d5\<rparr>"
  have k: "0 < ?n + 6" "Suc 0 < ?n + 6" "Suc (Suc 0) < ?n + 6" "Suc (Suc (Suc 0)) < ?n + 6"
    "Suc (Suc (Suc (Suc 0))) + ?n \<le> ?n + 6" "Suc (Suc (Suc (Suc 0))) + ?n < ?n + 6"
    "Suc (Suc (Suc (Suc (Suc 0))) + ?n) < ?n + 6"
    by simp_all
  have f0: "faults c = drop 0 (faults c)" by simp
  have e0: "get_cart_items cid c = (Inr ?items, ?c0)"
    unfolding get_cart_items_def execute_query_def
    by (rule execute_select_at [OF nf k(1) f0])
  have e1: "cursor_execute (insert_payment cid pm ?total (payment_now env)) ?c0 = (Inr pid, ?c1)"
    using cursor_execute_at [OF nf k(2), of ?c0 "insert_payment cid pm ?total (payment_now env)"]
    by (simp add: pid_def d1_def)
  have e2: "cursor_execute (insert_shipment (shipment_now env) addr
              (tracking_number_of (uuid4_hex env))) ?c1 = (Inr sid, ?c2)"
    using cursor_execute_at [OF nf k(3), of ?c1 "insert_shipment (shipment_now env) addr
              (tracking_number_of (uuid4_hex env))"]
    by (simp add: sid_def d2_def)
  have e3: "cursor_execute (insert_order cid (order_now env) ?total pid sid ''Processing'') ?c2
              = (Inr oid, ?c3)"
    using cursor_execute_at [OF nf k(4), of ?c2
        "insert_order cid (order_now env) ?total pid sid ''Processing''"]
    by (simp add: oid_def d3_def)
  have e4: "create_order_items oid ?items ?c3 = (Inr (), ?c4)"
    using create_order_items_at [OF nf k(5), of ?c3 oid]
    by (simp add: d4_def)
  have e5: "cursor_execute (clear_cart cid) ?c4 = (Inr (fst (clear_cart cid d4)), ?c5)"
    using cursor_execute_at [OF nf k(6), of ?c4 "clear_cart cid"]
    by (simp add: d5_def)
  have e6: "commit ?c5 = (Inr (), ?c6)"
    using commit_at [OF nf k(7), of ?c5]
    by simp
  have six: "Suc (Suc (Suc (Suc (Suc (Suc 0))) + ?n)) = ?n + 6" by simp
  have "create_order_try env cid pm addr c = (Inr (Some oid), ?c6)"
    unfolding create_order_try_def Let_def
    by (simp only: and_then_def e0 e1 e2 e3 e4 e5 e6 items if_False return_value_def
        prod.case sum.case)
  then have "create_order_try env cid pm addr c =
      (Inr (Some oid), c\<lparr>faults := drop (?n + 6) (faults c), working := d5, committed := d5\<rparr>)"
    by (simp only: six)
  then show ?thesis
    by (simp add: create_order_def placed)
qed

section \<open>Order items, totals and cart lines\<close>

lemma filter_fresh_key: "k \<notin> set (map f xs) \<Longrightarrow> filter (\<lambda>x. f x = k) xs = []"
  by (induction xs) auto



lemma no_lines_no_items: "cart_lines cid d = [] \<Longrightarrow> select_cart_items cid d = []"
  by (simp add: select_cart_items_def cart_lines_def)





lemma placed_order_items_belong:
  assumes "order_items_belong d"
  shows "order_items_belong (snd (placed env cid pm addr d))"
  using assms
  by (auto simp: order_items_belong_def list_all_iff placed_Order placed_Order_Item
      dest: order_item_rows_order_id)

lemma lines_for_cart_added_other:
  assumes uniq: "cart_ids_unique d" and other: "(cid', pid') \<noteq> (cid, pid)"
  shows "lines_for cid' pid' (cart_added now cid pid q d) = lines_for cid' pid' d"
proof (cases "lines_for cid pid d")
  case Nil
  with other show ?thesis
    by (auto simp: cart_added_new lines_for_def)
next
  case (Cons l0 rest)
  let ?P = "\<lambda>l. c_customer_id l = cid' \<and> c_product_id l = pid'"
  let ?upd = "\<lambda>l. if c_cart_id l = c_cart_id l0 then l\<lparr>c_quantity := c_quantity l0 + q\<rparr> else l"
  from Cons have "l0 \<in> set (lines_for cid pid d)" by simp
  then have l0: "l0 \<in> set (Cart d)" "c_customer_id l0 = cid" "c_product_id l0 = pid"
    by (simp_all add: lines_for_def)
  from uniq have inj: "inj_on c_cart_id (set (Cart d))"
    by (simp add: cart_ids_unique_def distinct_map)
  have same: "l = l0" if "l \<in> set (Cart d)" "c_cart_id l = c_cart_id l0" for l
    using inj that l0(1) by (auto dest: inj_onD)
  have "filter ?P (map ?upd xs) = filter ?P xs" if "set xs \<subseteq> set (Cart d)" for xs
    using that
  proof (induction xs)
    case Nil
    show ?case by simp
  next
    case (Cons x xs)
    then have x: "x \<in> set (Cart d)" and xs: "set xs \<subseteq> set (Cart d)" by simp_all
    show ?case
    proof (cases "c_cart_id x = c_cart_id l0")
      case True
      with same [OF x] have "x = l0" by simp
      with l0 other Cons.IH [OF xs] show ?thesis by auto
    next
      case False
      with Cons.IH [OF xs] show ?thesis by simp
    qed
  qed
  from this [of "Cart d"] show ?thesis
    by (simp add: cart_added_existing [OF Cons] lines_for_def)
qed

lemma lines_for_cart_added:
  assumes "cart_ids_unique d"
  shows "lines_for cid pid (cart_added now cid pid q d) =
           (case lines_for cid pid d of
              [] \<Rightarrow> [new_line now cid pid q d]
            | l # ls \<Rightarrow> l\<lparr>c_quantity := c_quantity l + q\<rparr> # ls)"
proof (cases "lines_for cid pid d")
  case Nil
  then show ?thesis by (simp add: lines_for_cart_added_new new_line_def)
next
  case (Cons l0 rest)
  then show ?thesis by (simp add: lines_for_cart_added_existing [OF assms Cons])
qed





text \<open>
  The constraints assumed of a store are kept by the writes of \<^const>\<open>create_order\<close> and
  \<^const>\<open>add_to_cart\<close>.
\<close>

lemma placed_product_ids_unique:
  assumes "product_ids_unique d"
  shows "product_ids_unique (snd (placed env cid pm addr d))"
proof -
  have "map p_product_id (Product (snd (placed env cid pm addr d))) = map p_product_id (Product d)"
    unfolding placed_Product by (induction "Product d") simp_all
  with assms show ?thesis
    by (simp only: product_ids_unique_def)
qed

lemma placed_cart_ids_unique:
  "cart_ids_unique d \<Longrightarrow> cart_ids_unique (snd (placed env cid pm addr d))"
  by (simp add: cart_ids_unique_def placed_Cart distinct_map_filter)

lemma cart_added_other_tables:
  "Product (cart_added now cid pid q d) = Product d"
  "Payment (cart_added now cid pid q d) = Payment d"
  "Shipment (cart_added now cid pid q d) = Shipment d"
  "Order (cart_added now cid pid q d) = Order d"
  "Order_Item (cart_added now cid pid q d) = Order_Item d"
  by (cases "lines_for cid pid d"; simp add: cart_added_new cart_added_existing)+

lemma cart_added_invariants:
  "product_ids_unique d \<Longrightarrow> product_ids_unique (cart_added now cid pid q d)"
  "order_items_belong d \<Longrightarrow> order_items_belong (cart_added now cid pid q d)"
  by (simp_all add: product_ids_unique_def order_items_belong_def cart_added_other_tables)

section \<open>The example stores, evaluated\<close>

lemmas example_defs = heattech_def down_jacket_def sample_store_def connect_def sample_env_def
  cart_store_def cart_store_ordered_def failing_connection_def one_line_store_def
  orphan_store_def merged_store_def unchecked_store_def scarce_store_def sold_out_store_def
  sold_out_cart_def

lemmas run_defs = create_order_def create_order_try_def get_cart_items_def execute_query_def
  execute_select_def cursor_execute_def commit_def rollback_def next_fault_def and_then_def
  return_value_def select_cart_items_def join_product_def insert_payment_def
  insert_shipment_def insert_order_def insert_order_item_def update_stock_def clear_cart_def
  next_rowid_def Let_def

lemmas cart_defs = add_to_cart_def execute_query_def execute_update_def execute_select_def
  cursor_execute_def commit_def next_fault_def and_then_def return_value_def
  select_cart_line_def update_cart_quantity_def insert_cart_def next_rowid_def

lemma tracking_example:
  "tracking_number_of ''3f2a9c1be07d4e5a8b6c1d2e3f4a5b6c'' = ''UNIQLO3F2A9C1B''"
  by code_simp

lemma cart_store_run:
  "create_order sample_env 7 ''PayPal'' ''12 Main St'' (connect cart_store) =
     (Some 1, connect cart_store_ordered)"
  by (simp add: run_defs example_defs tracking_example)

lemma failing_run:
  "create_order sample_env 7 ''PayPal'' ''12 Main St'' failing_connection =
     (None, connect cart_store)"
  by (simp add: run_defs example_defs tracking_example)

lemma sample_store_run:
  "create_order sample_env 7 ''PayPal'' ''12 Main St'' (connect sample_store) =
     (None, connect sample_store)"
  by (simp add: run_defs example_defs)


lemma merge_runs:
  "add_to_cart 50 7 1 2 (connect sample_store) = (Inr True, connect one_line_store)"
  "add_to_cart 51 7 1 3 (connect one_line_store) = (Inr True, connect merged_store)"
  by (simp_all add: cart_defs example_defs)

lemma sample_store_invariants:
  "product_ids_unique sample_store" "cart_ids_unique sample_store"
  "order_items_belong sample_store"
  by (simp_all add: product_ids_unique_def cart_ids_unique_def order_items_belong_def
      example_defs)

section \<open>The claims\<close>




text \<open>
  Claim C2. \<^const>\<open>create_order\<close> is atomic, whatever database call raises: either it returns
  \<^verbatim>\<open>None\<close>, the committed store is exactly as before the call and the connection's view
  is as before or rolled back to the committed store; or it returns the new order id, the
  committed store holds the whole unit of work (the Payment row, the Shipment row, the
  Order row, the Order_Item rows, the stock decrements and the customer's cart cleared)
  and no transaction stays open.
\<close>

theorem create_order_atomic:
  assumes "create_order env cid pm addr c = (r, c')"
  shows "(r = None \<and> committed c' = committed c \<and>
            (working c' = working c \<or> working c' = committed c))
       \<or> (\<exists>oid. r = Some oid \<and> working c' = committed c' \<and>
             unit_of_work_applied env cid pm addr oid (working c) (committed c'))"
proof (cases r)
  case None
  with assms have run: "create_order env cid pm addr c = (None, c')" by simp
  from create_order_None [OF run] None show ?thesis by simp
next
  case (Some oid)
  with assms have run: "create_order env cid pm addr c = (Some oid, c')" by simp
  note s = create_order_Some [OF run]
  have "unit_of_work_applied env cid pm addr oid (working c) (committed c')"
    unfolding unit_of_work_applied_def s(2) s(3)
    by (simp add: placed_order_id placed_Payment placed_Shipment placed_Order
        placed_Order_Item placed_Product placed_Cart s(1))
  with Some s(4) show ?thesis by simp
qed

theorem create_order_atomic_witness:
  "create_order sample_env 7 ''PayPal'' ''12 Main St'' failing_connection =
     (None, connect cart_store) \<and>
   committed (connect cart_store) = committed failing_connection \<and>
   create_order sample_env 7 ''PayPal'' ''12 Main St'' (connect cart_store) =
     (Some 1, connect cart_store_ordered) \<and>
   unit_of_work_applied sample_env 7 ''PayPal'' ''12 Main St'' 1 cart_store cart_store_ordered"
  using create_order_atomic [OF failing_run] create_order_atomic [OF cart_store_run]
    failing_run cart_store_run
  by (simp add: connect_def failing_connection_def)

text \<open>
  Claim C3 fails on the code: \<^const>\<open>create_order\<close> has no stock check. With stock 2 and a
  cart line of 3 units the order is placed with id 1, an Order row is written and the
  stock becomes -1.
\<close>

theorem create_order_oversells:
  "product_stock scarce_store 1 = Some 2 \<and>
   ordered_quantity 7 1 scarce_store = 3 \<and>
   fst (create_order sample_env 7 ''Credit Card'' ''12 Main St'' (connect scarce_store)) = Some 1 \<and>
   product_stock (committed (snd
     (create_order sample_env 7 ''Credit Card'' ''12 Main St'' (connect scarce_store)))) 1
     = Some (- 1) \<and>
   map o_order_id (Order (committed (snd
     (create_order sample_env 7 ''Credit Card'' ''12 Main St'' (connect scarce_store))))) = [1]"
  by (simp add: product_stock_def ordered_quantity_def cart_lines_def run_defs example_defs
      tracking_example)

text \<open>
  Claim C4 fails on the code: the stock update of \<^const>\<open>create_order\<close> subtracts without a
  guard. A product with stock 0 is added to the cart (one unit, as the home page does)
  and ordered; the stock becomes -1.
\<close>

theorem stock_goes_negative:
  "product_stock sold_out_store 1 = Some 0 \<and>
   add_to_cart 50 7 1 1 (connect sold_out_store) = (Inr True, connect sold_out_cart) \<and>
   fst (create_order sample_env 7 ''Credit Card'' ''12 Main St'' (connect sold_out_cart)) = Some 1 \<and>
   product_stock (committed (snd
     (create_order sample_env 7 ''Credit Card'' ''12 Main St'' (connect sold_out_cart)))) 1
     = Some (- 1)"
proof -
  have "add_to_cart 50 7 1 1 (connect sold_out_store) = (Inr True, connect sold_out_cart)"
    by (simp add: cart_defs example_defs)
  then show ?thesis
    by (simp add: product_stock_def run_defs example_defs tracking_example)
qed

text \<open>
  Claim C5. When the customer has no cart line, \<^const>\<open>create_order\<close> returns \<^verbatim>\<open>None\<close>
  (the failure indicator of the source, whatever database call raises) and the committed
  store is unchanged: no Payment, Shipment, Order or Order_Item row, no stock or cart
  change. With no transaction open at the call, the connection's view is unchanged too.
\<close>

theorem create_order_empty_cart:
  assumes empty: "cart_lines cid (working c) = []"
    and run: "create_order env cid pm addr c = (r, c')"
  shows "r = None \<and> committed c' = committed c \<and>
         (working c = committed c \<longrightarrow> working c' = working c)"
proof (cases r)
  case None
  with run have "create_order env cid pm addr c = (None, c')" by simp
  from create_order_None [OF this] None show ?thesis by auto
next
  case (Some oid)
  with run have "create_order env cid pm addr c = (Some oid, c')" by simp
  from create_order_Some(1) [OF this] no_lines_no_items [OF empty] show ?thesis by simp
qed

theorem create_order_empty_cart_witness:
  "cart_lines 7 (working (connect sample_store)) = [] \<and>
   create_order sample_env 7 ''PayPal'' ''12 Main St'' (connect sample_store) =
     (None, connect sample_store) \<and>
   working (connect sample_store) = committed (connect sample_store) \<and>
   committed (connect sample_store) = sample_store"
proof -
  have empty: "cart_lines 7 (working (connect sample_store)) = []"
    by (simp add: cart_lines_def example_defs)
  from create_order_empty_cart [OF empty sample_store_run] empty sample_store_run
  show ?thesis by (simp add: connect_def)
qed



text \<open>
  Claim C7. After a successful \<^const>\<open>create_order\<close> the customer has no cart line, in the
  committed store and in the connection's view.
\<close>

theorem create_order_clears_cart:
  assumes "create_order env cid pm addr c = (Some oid, c')"
  shows "cart_lines cid (committed c') = [] \<and> cart_lines cid (working c') = []"
  using create_order_Some(3,4) [OF assms]
  by (simp add: cart_lines_def placed_Cart)

theorem create_order_clears_cart_witness:
  "create_order sample_env 7 ''PayPal'' ''12 Main St'' (connect cart_store) =
     (Some 1, connect cart_store_ordered) \<and>
   cart_lines 7 (working (connect cart_store)) \<noteq> [] \<and>
   cart_lines 7 (committed (connect cart_store_ordered)) = [] \<and>
   cart_lines 7 (working (connect cart_store_ordered)) = []"
proof -
  have "cart_lines 7 (working (connect cart_store)) \<noteq> []"
    by (simp add: cart_lines_def example_defs)
  with create_order_clears_cart [OF cart_store_run] cart_store_run
  show ?thesis by simp
qed

text \<open>
  Claim C8. \<^const>\<open>add_to_cart\<close> merges by increment. On a store whose cart ids are unique
  (the primary key of Cart), a call that returns \<^verbatim>\<open>True\<close> leaves the lines of the
  (customer, product) pair as follows: with no line before, exactly one new line with the
  given quantity, and the cart one line longer; otherwise the first line with its
  quantity incremented by the given quantity, the others as they were, and the cart as
  long as before. Lines of every other pair are untouched and the write is committed.
  Adding the product again to a cart that had no line for it gives one line whose
  quantity is the sum of the two quantities.
\<close>

theorem add_to_cart_merges:
  assumes uniq: "cart_ids_unique (working c)"
    and run: "add_to_cart now cid pid q c = (Inr True, c')"
  shows "lines_for cid pid (committed c') =
           (case lines_for cid pid (working c) of
              [] \<Rightarrow> [new_line now cid pid q (working c)]
            | l # ls \<Rightarrow> l\<lparr>c_quantity := c_quantity l + q\<rparr> # ls) \<and>
         length (Cart (committed c')) =
           (if lines_for cid pid (working c) = [] then length (Cart (working c)) + 1
            else length (Cart (working c))) \<and>
         (\<forall>cid' pid'. (cid', pid') \<noteq> (cid, pid) \<longrightarrow>
            lines_for cid' pid' (committed c') = lines_for cid' pid' (working c)) \<and>
         working c' = committed c' \<and>
         (lines_for cid pid (working c) = [] \<longrightarrow>
            (\<forall>now2 q2 c2. add_to_cart now2 cid pid q2 c' = (Inr True, c2) \<longrightarrow>
               map c_quantity (lines_for cid pid (committed c2)) = [q + q2]))"
proof -
  let ?d = "working c"
  let ?d' = "cart_added now cid pid q ?d"
  from run have c': "committed c' = ?d'" "working c' = ?d'"
    by (simp_all add: add_to_cart_Inr)
  have uniq': "cart_ids_unique ?d'"
    by (rule cart_added_ids_unique [OF uniq])
  have twice: "map c_quantity (lines_for cid pid (committed c2)) = [q + q2]"
    if empty: "lines_for cid pid ?d = []"
      and run2: "add_to_cart now2 cid pid q2 c' = (Inr True, c2)" for now2 q2 c2
  proof -
    from run2 have "committed c2 = cart_added now2 cid pid q2 ?d'"
      by (simp add: add_to_cart_Inr c')
    then show ?thesis
      by (simp add: lines_for_cart_added [OF uniq'] lines_for_cart_added [OF uniq] empty
          new_line_def)
  qed
  show ?thesis
    unfolding c'
    using twice
    by (simp add: lines_for_cart_added [OF uniq] cart_added_length
        lines_for_cart_added_other [OF uniq])
qed

theorem add_to_cart_merges_witness:
  "cart_ids_unique (working (connect sample_store)) \<and>
   lines_for 7 1 (working (connect sample_store)) = [] \<and>
   add_to_cart 50 7 1 2 (connect sample_store) = (Inr True, connect one_line_store) \<and>
   add_to_cart 51 7 1 3 (connect one_line_store) = (Inr True, connect merged_store) \<and>
   map c_quantity (lines_for 7 1 (committed (connect merged_store))) = [2 + 3] \<and>
   length (Cart merged_store) = 1"
proof -
  have uniq: "cart_ids_unique (working (connect sample_store))"
    by (simp add: cart_ids_unique_def example_defs)
  have empty: "lines_for 7 1 (working (connect sample_store)) = []"
    by (simp add: lines_for_def example_defs)
  from add_to_cart_merges [OF uniq merge_runs(1)] empty
  have "\<forall>now2 q2 c2. add_to_cart now2 7 1 q2 (connect one_line_store) = (Inr True, c2) \<longrightarrow>
          map c_quantity (lines_for 7 1 (committed c2)) = [2 + q2]"
    by blast
  with merge_runs(2)
  have "map c_quantity (lines_for 7 1 (committed (connect merged_store))) = [2 + 3]"
    by blast
  moreover have "length (Cart merged_store) = 1"
    by (simp add: merged_store_def)
  ultimately show ?thesis
    using uniq empty merge_runs by simp
qed

text \<open>
  Claim C9. After a successful \<^const>\<open>create_order\<close> the Order table is the one before the
  call followed by exactly one row with the new order id, and the status of that row is
  \<^verbatim>\<open>Processing\<close>.
\<close>

theorem create_order_status:
  assumes "create_order env cid pm addr c = (Some oid, c')"
  shows "map o_status (orders_with_id oid (committed c')) = [''Processing''] \<and>
         Order (committed c') = Order (working c) @ orders_with_id oid (committed c')"
proof -
  note s = create_order_Some [OF assms]
  have fresh: "filter (\<lambda>ord. o_order_id ord = next_rowid (map o_order_id (Order (working c))))
                 (Order (working c)) = []"
    by (rule filter_fresh_key [OF next_rowid_fresh])
  show ?thesis
    by (simp add: s(2) s(3) orders_with_id_def placed_Order placed_order_id fresh)
qed

theorem create_order_status_witness:
  "create_order sample_env 7 ''PayPal'' ''12 Main St'' (connect cart_store) =
     (Some 1, connect cart_store_ordered) \<and>
   map o_status (orders_with_id 1 (committed (connect cart_store_ordered))) = [''Processing'']"
  using create_order_status [OF cart_store_run] cart_store_run by simp



end
